theory Spec2Isabelle
  imports Complex_Main "HOL-Library.Multiset" "HOL-Library.Log_Nat"
begin

section \<open>The meal catalogue of \<open>kitchen_model.py\<close>\<close>

text \<open>
  The module keeps its data in one SQLite table \<open>meals\<close> and reaches it through a
  connection per call. The embedding passes the table explicitly: every operation takes
  the table it finds and returns an outcome made of the value returned or the exception
  raised, the table it leaves behind, and the events it handed to the logger.

  SQLite's integer columns are modelled by \<open>int\<close>. A Python \<open>float\<close> or SQLite
  \<open>REAL\<close> is modelled by the rational it denotes: prices are only stored, compared
  with zero and returned, which is exact, and the arithmetic of the leaderboard rounds
  every result to the nearest double. The connection provider and the
  database engine are taken to work: the handlers for \<open>sqlite3.Error\<close> other than
  \<open>IntegrityError\<close> only log and re-raise what the environment raised, and have no
  branch here.
\<close>

subsection \<open>Data\<close>

text \<open>
  Modelled from the spec: the schema script \<open>create_meal_table.sql\<close> is not part of the
  sources. The spec gives the columns of a row as id (primary key, generated by the
  store), name (unique, whatever the deleted flag), cuisine, price, difficulty, battles
  (default 0), wins (default 0) and deleted (default false).
\<close>

record meal_row =
  r_id :: int
  r_meal :: string
  r_cuisine :: string
  r_price :: rat
  r_difficulty :: string
  r_battles :: int
  r_wins :: int
  r_deleted :: bool

type_synonym meals = "meal_row list"

text \<open>The dataclass \<open>Meal\<close>.\<close>

record Meal =
  m_id :: int
  m_meal :: string
  m_cuisine :: string
  m_price :: rat
  m_difficulty :: string

text \<open>The dictionary built for each row of the leaderboard.\<close>

record leaderboard_entry =
  e_id :: int
  e_meal :: string
  e_cuisine :: string
  e_price :: rat
  e_difficulty :: string
  e_battles :: int
  e_wins :: int
  e_win_pct :: rat

text \<open>
  Every failure the module raises itself is a \<open>ValueError\<close>; the constructors name the
  condition its message reports:
  \<^item> \<open>Invalid_Argument\<close>: a bad price, difficulty, result or sort key;
  \<^item> \<open>Not_Found\<close>: \<open>Meal with ID/name ... not found\<close>;
  \<^item> \<open>Already_Deleted\<close>: \<open>Meal with ID/name ... has been deleted\<close>;
  \<^item> \<open>Duplicate_Name\<close>: \<open>Meal with name ... already exists\<close>.
\<close>

datatype error = Invalid_Argument | Not_Found | Already_Deleted | Duplicate_Name

text \<open>A call of \<open>logger.info\<close> or \<open>logger.error\<close>, with its format string.\<close>

datatype log_event = Info string | Error string

record 'a outcome =
  result :: "error + 'a"
  table :: meals
  events :: "log_event list"

text \<open>
  The \<open>price\<close> argument of \<open>create_meal\<close> is tested with \<open>isinstance\<close> before it is
  compared: \<open>Num\<close> is an \<open>int\<close> or \<open>float\<close>, \<open>NonNum\<close> any other Python value.
\<close>

datatype py_price = Num rat | NonNum

subsection \<open>The record validator\<close>

definition difficulties :: "string list" where
  "difficulties = [''LOW'', ''MED'', ''HIGH'']"

text \<open>\<open>Meal.__init__\<close> followed by \<open>__post_init__\<close>.\<close>

definition make_Meal :: "int \<Rightarrow> string \<Rightarrow> string \<Rightarrow> rat \<Rightarrow> string \<Rightarrow> error + Meal" where
  "make_Meal i n c p d =
     (if p < 0 then Inl Invalid_Argument
      else if d \<notin> set difficulties then Inl Invalid_Argument
      else Inr \<lparr>m_id = i, m_meal = n, m_cuisine = c, m_price = p, m_difficulty = d\<rparr>)"

subsection \<open>The store\<close>

text \<open>\<open>cursor.fetchone()\<close> after a \<open>SELECT ... WHERE id = ?\<close> or \<open>WHERE meal = ?\<close>.\<close>

definition fetch_by_id :: "meals \<Rightarrow> int \<Rightarrow> meal_row option" where
  "fetch_by_id db i = find (\<lambda>r. r_id r = i) db"

definition fetch_by_name :: "meals \<Rightarrow> string \<Rightarrow> meal_row option" where
  "fetch_by_name db n = find (\<lambda>r. r_meal r = n) db"

text \<open>
  Modelled from the spec: the identifier is generated by the store. SQLite gives a new
  row of an integer primary key one more than the largest identifier in the table, and
  1 in an empty table.
\<close>

fun next_id :: "meals \<Rightarrow> int" where
  "next_id [] = 1"
| "next_id (r # rs) = (if rs = [] then r_id r + 1 else max (r_id r + 1) (next_id rs))"

text \<open>
  \<open>create_meal\<close> checks its arguments, without logging, before it opens a connection.
  The \<open>INSERT\<close> raises \<open>sqlite3.IntegrityError\<close> when it breaks the uniqueness of
  names (the constraint is part of the schema, see above): a row with that name is in
  the table, deleted or not. A row inserted takes the schema's defaults for battles,
  wins and deleted.
\<close>

definition create_meal :: "string \<Rightarrow> string \<Rightarrow> py_price \<Rightarrow> string \<Rightarrow> meals \<Rightarrow> unit outcome" where
  "create_meal n c price d db =
     (case price of
        NonNum \<Rightarrow> \<lparr>result = Inl Invalid_Argument, table = db, events = []\<rparr>
      | Num p \<Rightarrow>
          if p \<le> 0 then \<lparr>result = Inl Invalid_Argument, table = db, events = []\<rparr>
          else if d \<notin> set difficulties then
            \<lparr>result = Inl Invalid_Argument, table = db, events = []\<rparr>
          else if fetch_by_name db n \<noteq> None then
            \<lparr>result = Inl Duplicate_Name, table = db,
             events = [Error ''Duplicate meal name: %s'']\<rparr>
          else
            \<lparr>result = Inr (),
             table = db @ [\<lparr>r_id = next_id db, r_meal = n, r_cuisine = c, r_price = p,
                            r_difficulty = d, r_battles = 0, r_wins = 0, r_deleted = False\<rparr>],
             events = [Info ''Meal successfully added to the database: %s'']\<rparr>)"

definition delete_meal :: "int \<Rightarrow> meals \<Rightarrow> unit outcome" where
  "delete_meal i db =
     (case fetch_by_id db i of
        None \<Rightarrow>
          \<lparr>result = Inl Not_Found, table = db, events = [Info ''Meal with ID %s not found'']\<rparr>
      | Some r \<Rightarrow>
          if r_deleted r then
            \<lparr>result = Inl Already_Deleted, table = db,
             events = [Info ''Meal with ID %s has already been deleted'']\<rparr>
          else
            \<lparr>result = Inr (),
             table = map (\<lambda>x. if r_id x = i then x\<lparr>r_deleted := True\<rparr> else x) db,
             events = [Info ''Meal with ID %s marked as deleted.'']\<rparr>)"

definition get_meal_by_id :: "int \<Rightarrow> meals \<Rightarrow> Meal outcome" where
  "get_meal_by_id i db =
     (case fetch_by_id db i of
        Some r \<Rightarrow>
          if r_deleted r then
            \<lparr>result = Inl Already_Deleted, table = db,
             events = [Info ''Meal with ID %s has been deleted'']\<rparr>
          else
            \<lparr>result = make_Meal (r_id r) (r_meal r) (r_cuisine r) (r_price r) (r_difficulty r),
             table = db, events = []\<rparr>
      | None \<Rightarrow>
          \<lparr>result = Inl Not_Found, table = db, events = [Info ''Meal with ID %s not found'']\<rparr>)"

definition get_meal_by_name :: "string \<Rightarrow> meals \<Rightarrow> Meal outcome" where
  "get_meal_by_name n db =
     (case fetch_by_name db n of
        Some r \<Rightarrow>
          if r_deleted r then
            \<lparr>result = Inl Already_Deleted, table = db,
             events = [Info ''Meal with name %s has been deleted'']\<rparr>
          else
            \<lparr>result = make_Meal (r_id r) (r_meal r) (r_cuisine r) (r_price r) (r_difficulty r),
             table = db, events = []\<rparr>
      | None \<Rightarrow>
          \<lparr>result = Inl Not_Found, table = db,
           events = [Info ''Meal with name %s not found'']\<rparr>)"

text \<open>
  \<open>update_meal_stats\<close> looks the row up first and tests \<open>result\<close> afterwards; the
  \<open>ValueError\<close> for a bad \<open>result\<close> is raised before \<open>conn.commit()\<close> and with no call
  of the logger.
\<close>

definition update_meal_stats :: "int \<Rightarrow> string \<Rightarrow> meals \<Rightarrow> unit outcome" where
  "update_meal_stats i res db =
     (case fetch_by_id db i of
        None \<Rightarrow>
          \<lparr>result = Inl Not_Found, table = db, events = [Info ''Meal with ID %s not found'']\<rparr>
      | Some r \<Rightarrow>
          if r_deleted r then
            \<lparr>result = Inl Already_Deleted, table = db,
             events = [Info ''Meal with ID %s has been deleted'']\<rparr>
          else if res = ''win'' then
            \<lparr>result = Inr (),
             table = map (\<lambda>x. if r_id x = i
                               then x\<lparr>r_battles := r_battles x + 1, r_wins := r_wins x + 1\<rparr>
                               else x) db,
             events = []\<rparr>
          else if res = ''loss'' then
            \<lparr>result = Inr (),
             table = map (\<lambda>x. if r_id x = i then x\<lparr>r_battles := r_battles x + 1\<rparr> else x) db,
             events = []\<rparr>
          else \<lparr>result = Inl Invalid_Argument, table = db, events = []\<rparr>)"

subsection \<open>Double precision arithmetic\<close>

text \<open>
  The quotient of the leaderboard is computed by SQLite in C doubles and finished by
  Python in floats, both IEEE binary64 with rounding to nearest, ties to even. A finite
  double is modelled by the rational it denotes, and an operation by the exact result
  rounded to the nearest double.

  \<open>round_half_even\<close> is rounding to the nearest integer, a tie going to the even one.
  \<open>ilog2 x\<close> is the exponent of the power of two at or below a positive \<open>x\<close>.
  \<open>to_double\<close> keeps 53 significant bits. The exponent range of binary64 is not
  modelled: with 64-bit counters the quotients lie between \<open>2 powi -63\<close> and
  \<open>2 powi 63\<close>, far from overflow and from the subnormal numbers.
\<close>

definition round_half_even :: "rat \<Rightarrow> int" where
  "round_half_even x =
     (let f = \<lfloor>x\<rfloor>; d = x - of_int f
      in if d < 1 / 2 then f else if 1 / 2 < d then f + 1 else if even f then f else f + 1)"

definition ilog2 :: "rat \<Rightarrow> int" where
  "ilog2 x = (if 1 \<le> x then bitlen \<lfloor>x\<rfloor> - 1 else - bitlen (\<lceil>1 / x\<rceil> - 1))"

definition to_double :: "rat \<Rightarrow> rat" where
  "to_double x =
     (if x = 0 then 0
      else let e = ilog2 \<bar>x\<bar> - 52
           in sgn x * of_int (round_half_even (\<bar>x\<bar> / 2 powi e)) * 2 powi e)"

text \<open>The product and the quotient of two doubles.\<close>

definition fl_mul :: "rat \<Rightarrow> rat \<Rightarrow> rat" where
  "fl_mul a b = to_double (a * b)"

definition fl_div :: "rat \<Rightarrow> rat \<Rightarrow> rat" where
  "fl_div a b = to_double (a / b)"

text \<open>
  Python's \<open>round(y, 1)\<close> on a float \<open>y\<close>: the decimal with one digit after the
  point nearest to the value of \<open>y\<close>, a tie going to the even digit, converted back to
  the nearest double.
\<close>

definition py_round1 :: "rat \<Rightarrow> rat" where
  "py_round1 y = to_double (of_int (round_half_even (y * 10)) / 10)"

subsection \<open>The leaderboard\<close>

text \<open>The \<open>WHERE\<close> clause of the query: \<open>deleted = false AND battles > 0\<close>.\<close>

definition on_board :: "meal_row \<Rightarrow> bool" where
  "on_board r = (\<not> r_deleted r \<and> 0 < r_battles r)"

text \<open>
  The computed column \<open>(wins * 1.0 / battles) AS win_pct\<close>: the integer \<open>wins\<close> is
  converted to a double and multiplied by \<open>1.0\<close>, \<open>battles\<close> is converted to a double,
  and the two are divided.
\<close>

definition win_pct :: "meal_row \<Rightarrow> rat" where
  "win_pct r = fl_div (fl_mul (to_double (of_int (r_wins r))) 1) (to_double (of_int (r_battles r)))"

text \<open>The dictionary of a row, with \<open>round(row[7] * 100, 1)\<close> as its \<open>win_pct\<close>.\<close>

definition leaderboard_row :: "meal_row \<Rightarrow> leaderboard_entry" where
  "leaderboard_row r =
     \<lparr>e_id = r_id r, e_meal = r_meal r, e_cuisine = r_cuisine r, e_price = r_price r,
      e_difficulty = r_difficulty r, e_battles = r_battles r, e_wins = r_wins r,
      e_win_pct = py_round1 (fl_mul (win_pct r) 100)\<rparr>"

text \<open>
  \<open>ORDER BY ... DESC\<close>: SQLite leaves the order of rows with equal keys open; the
  model keeps them in table order.
\<close>

definition get_leaderboard :: "string \<Rightarrow> meals \<Rightarrow> leaderboard_entry list outcome" where
  "get_leaderboard sort_by db =
     (if sort_by = ''win_pct'' then
        \<lparr>result = Inr (map leaderboard_row (sort_key (\<lambda>r. - win_pct r) (filter on_board db))),
         table = db, events = [Info ''Leaderboard retrieved successfully'']\<rparr>
      else if sort_by = ''wins'' then
        \<lparr>result = Inr (map leaderboard_row (sort_key (\<lambda>r. - r_wins r) (filter on_board db))),
         table = db, events = [Info ''Leaderboard retrieved successfully'']\<rparr>
      else
        \<lparr>result = Inl Invalid_Argument, table = db,
         events = [Error ''Invalid sort_by parameter: %s'']\<rparr>)"

subsection \<open>Sequences of calls\<close>

text \<open>
  The calls that change the table, and the table a sequence of them leaves when it
  starts from a given one. A call that raises leaves the table it returns in its outcome.
\<close>

datatype call = Create string string py_price string | Delete int | UpdateStats int string

fun step :: "call \<Rightarrow> meals \<Rightarrow> meals" where
  "step (Create n c p d) db = table (create_meal n c p d db)"
| "step (Delete i) db = table (delete_meal i db)"
| "step (UpdateStats i res) db = table (update_meal_stats i res db)"

fun run :: "call list \<Rightarrow> meals \<Rightarrow> meals" where
  "run [] db = db"
| "run (c # cs) db = run cs (step c db)"

subsection \<open>Sample rows\<close>

text \<open>A row with the given identifier, name, battles, wins and deleted flag.\<close>

definition sample_row :: "int \<Rightarrow> string \<Rightarrow> int \<Rightarrow> int \<Rightarrow> bool \<Rightarrow> meal_row" where
  "sample_row i n b w del =
     \<lparr>r_id = i, r_meal = n, r_cuisine = ''thai'', r_price = 5, r_difficulty = ''LOW'',
      r_battles = b, r_wins = w, r_deleted = del\<rparr>"

section \<open>Properties\<close>

subsection \<open>Lookups after an update\<close>

text \<open>
  An \<open>UPDATE ... WHERE id = ?\<close> that leaves identifiers alone changes what a lookup
  by that identifier finds, and nothing else.
\<close>

lemma fetch_by_id_map:
  assumes "\<And>x. r_id (f x) = r_id x"
  shows "fetch_by_id (map (\<lambda>x. if r_id x = i then f x else x) db) j =
     (if j = i then map_option f (fetch_by_id db i) else fetch_by_id db j)"
  using assms unfolding fetch_by_id_def
  by (induction db) auto

lemma fetch_by_id_None: "fetch_by_id db i = None \<longleftrightarrow> (\<forall>r \<in> set db. r_id r \<noteq> i)"
  by (auto simp: fetch_by_id_def find_None_iff)

subsection \<open>Updating the statistics\<close>

text \<open>
  C1. \<open>update_meal_stats\<close> fails with not-found when no row has the identifier and with
  already-deleted when the row is flagged deleted, whatever the result string. On a row
  that is present and not deleted, \<open>win\<close> adds one to battles and one to wins, \<open>loss\<close>
  adds one to battles and leaves wins alone, and any other result string fails with
  invalid-argument. Rows with another identifier are found as before, and no row is added
  or removed.
\<close>

theorem update_meal_stats_spec:
  "((\<forall>r \<in> set db. r_id r \<noteq> i) \<longrightarrow> result (update_meal_stats i res db) = Inl Not_Found) \<and>
   (\<forall>r. fetch_by_id db i = Some r \<and> r_deleted r \<longrightarrow>
      result (update_meal_stats i res db) = Inl Already_Deleted) \<and>
   (\<forall>r. fetch_by_id db i = Some r \<and> \<not> r_deleted r \<longrightarrow>
      (res = ''win'' \<longrightarrow>
         result (update_meal_stats i res db) = Inr () \<and>
         fetch_by_id (table (update_meal_stats i res db)) i =
           Some (r\<lparr>r_battles := r_battles r + 1, r_wins := r_wins r + 1\<rparr>)) \<and>
      (res = ''loss'' \<longrightarrow>
         result (update_meal_stats i res db) = Inr () \<and>
         fetch_by_id (table (update_meal_stats i res db)) i =
           Some (r\<lparr>r_battles := r_battles r + 1\<rparr>)) \<and>
      (res \<noteq> ''win'' \<and> res \<noteq> ''loss'' \<longrightarrow>
         result (update_meal_stats i res db) = Inl Invalid_Argument)) \<and>
   (\<forall>j. j \<noteq> i \<longrightarrow> fetch_by_id (table (update_meal_stats i res db)) j = fetch_by_id db j) \<and>
   map r_id (table (update_meal_stats i res db)) = map r_id db"
proof (cases "fetch_by_id db i")
  case None
  then show ?thesis by (simp add: update_meal_stats_def)
next
  case (Some r)
  then have here: "\<not> (\<forall>r \<in> set db. r_id r \<noteq> i)"
    using fetch_by_id_None [of db i] by simp
  have ids: "map r_id (table (update_meal_stats i res db)) = map r_id db"
    using Some by (simp add: update_meal_stats_def o_def cong: map_cong)
  show ?thesis
    using Some here ids by (simp add: update_meal_stats_def fetch_by_id_map)
qed

theorem update_meal_stats_spec_witness:
  "result (update_meal_stats 7 ''win'' []) = Inl Not_Found \<and>
   result (update_meal_stats 1 ''win'' [sample_row 1 ''pad thai'' 2 1 True]) = Inl Already_Deleted \<and>
   result (update_meal_stats 1 ''win'' [sample_row 1 ''pad thai'' 2 1 False]) = Inr () \<and>
   fetch_by_id (table (update_meal_stats 1 ''win'' [sample_row 1 ''pad thai'' 2 1 False])) 1 =
     Some (sample_row 1 ''pad thai'' 3 2 False) \<and>
   result (update_meal_stats 1 ''loss'' [sample_row 1 ''pad thai'' 2 1 False]) = Inr () \<and>
   fetch_by_id (table (update_meal_stats 1 ''loss'' [sample_row 1 ''pad thai'' 2 1 False])) 1 =
     Some (sample_row 1 ''pad thai'' 3 1 False) \<and>
   result (update_meal_stats 1 ''draw'' [sample_row 1 ''pad thai'' 2 1 False]) = Inl Invalid_Argument"
  using update_meal_stats_spec [of "[]" 7 "''win''"]
    update_meal_stats_spec [of "[sample_row 1 ''pad thai'' 2 1 True]" 1 "''win''"]
    update_meal_stats_spec [of "[sample_row 1 ''pad thai'' 2 1 False]" 1 "''win''"]
    update_meal_stats_spec [of "[sample_row 1 ''pad thai'' 2 1 False]" 1 "''loss''"]
    update_meal_stats_spec [of "[sample_row 1 ''pad thai'' 2 1 False]" 1 "''draw''"]
  by (simp add: fetch_by_id_def sample_row_def)

subsection \<open>The record validator\<close>

text \<open>
  C7. Building a \<open>Meal\<close> fails with invalid-argument for every negative price and for
  every difficulty other than LOW, MED and HIGH, and succeeds, with the fields as given,
  for every price that is zero or more together with one of the three difficulties; zero
  is accepted. The two lookups build their answer from a live row with the same
  constructor.
\<close>

theorem make_Meal_spec:
  "(p < 0 \<longrightarrow> make_Meal i n c p d = Inl Invalid_Argument) \<and>
   (d \<noteq> ''LOW'' \<and> d \<noteq> ''MED'' \<and> d \<noteq> ''HIGH'' \<longrightarrow> make_Meal i n c p d = Inl Invalid_Argument) \<and>
   (0 \<le> p \<and> (d = ''LOW'' \<or> d = ''MED'' \<or> d = ''HIGH'') \<longrightarrow>
      make_Meal i n c p d =
        Inr \<lparr>m_id = i, m_meal = n, m_cuisine = c, m_price = p, m_difficulty = d\<rparr>) \<and>
   (\<forall>r. fetch_by_id db i = Some r \<and> \<not> r_deleted r \<longrightarrow>
      result (get_meal_by_id i db) =
        make_Meal (r_id r) (r_meal r) (r_cuisine r) (r_price r) (r_difficulty r)) \<and>
   (\<forall>r. fetch_by_name db n = Some r \<and> \<not> r_deleted r \<longrightarrow>
      result (get_meal_by_name n db) =
        make_Meal (r_id r) (r_meal r) (r_cuisine r) (r_price r) (r_difficulty r))"
  by (auto simp: make_Meal_def difficulties_def get_meal_by_id_def get_meal_by_name_def)

theorem make_Meal_spec_witness:
  "make_Meal 1 ''soup'' ''thai'' (- 1) ''LOW'' = Inl Invalid_Argument \<and>
   make_Meal 1 ''soup'' ''thai'' 5 ''EASY'' = Inl Invalid_Argument \<and>
   make_Meal 1 ''soup'' ''thai'' 0 ''HIGH'' =
     Inr \<lparr>m_id = 1, m_meal = ''soup'', m_cuisine = ''thai'', m_price = 0, m_difficulty = ''HIGH''\<rparr> \<and>
   result (get_meal_by_id 1 [sample_row 1 ''soup'' 0 0 False]) =
     Inr \<lparr>m_id = 1, m_meal = ''soup'', m_cuisine = ''thai'', m_price = 5, m_difficulty = ''LOW''\<rparr> \<and>
   result (get_meal_by_name ''soup'' [sample_row 1 ''soup'' 0 0 False]) =
     Inr \<lparr>m_id = 1, m_meal = ''soup'', m_cuisine = ''thai'', m_price = 5, m_difficulty = ''LOW''\<rparr>"
  using make_Meal_spec [of "- 1" 1 "''soup''" "''thai''" "''LOW''" "[]"]
    make_Meal_spec [of 5 1 "''soup''" "''thai''" "''EASY''" "[]"]
    make_Meal_spec [of 0 1 "''soup''" "''thai''" "''HIGH''" "[]"]
    make_Meal_spec [of 5 1 "''soup''" "''thai''" "''LOW''" "[sample_row 1 ''soup'' 0 0 False]"]
  by (simp add: fetch_by_id_def fetch_by_name_def sample_row_def)

subsection \<open>Creating a meal\<close>

lemma fetch_by_name_None: "fetch_by_name db n = None \<longleftrightarrow> (\<forall>r \<in> set db. r_meal r \<noteq> n)"
  by (auto simp: fetch_by_name_def find_None_iff)

text \<open>
  C3. \<open>create_meal\<close> fails with invalid-argument for every price that is zero or less
  and for every difficulty other than LOW, MED and HIGH. With a positive price and a
  valid difficulty it fails with duplicate-name as soon as a row of that name is in the
  table, deleted or not, and otherwise appends exactly one row with the given fields,
  no battles, no wins and the deleted flag off.
\<close>

theorem create_meal_spec:
  "(p \<le> 0 \<longrightarrow> result (create_meal n c (Num p) d db) = Inl Invalid_Argument) \<and>
   (d \<noteq> ''LOW'' \<and> d \<noteq> ''MED'' \<and> d \<noteq> ''HIGH'' \<longrightarrow>
      result (create_meal n c (Num p) d db) = Inl Invalid_Argument) \<and>
   (0 < p \<and> (d = ''LOW'' \<or> d = ''MED'' \<or> d = ''HIGH'') \<longrightarrow>
      ((\<exists>r \<in> set db. r_meal r = n) \<longrightarrow>
         result (create_meal n c (Num p) d db) = Inl Duplicate_Name) \<and>
      ((\<forall>r \<in> set db. r_meal r \<noteq> n) \<longrightarrow>
         result (create_meal n c (Num p) d db) = Inr () \<and>
         (\<exists>i. table (create_meal n c (Num p) d db) =
            db @ [\<lparr>r_id = i, r_meal = n, r_cuisine = c, r_price = p, r_difficulty = d,
                   r_battles = 0, r_wins = 0, r_deleted = False\<rparr>])))"
proof (cases "fetch_by_name db n")
  case None
  then have "\<forall>r \<in> set db. r_meal r \<noteq> n" by (simp add: fetch_by_name_None)
  with None show ?thesis by (auto simp: create_meal_def difficulties_def)
next
  case (Some r)
  then have "\<not> (\<forall>r \<in> set db. r_meal r \<noteq> n)" using fetch_by_name_None [of db n] by simp
  with Some show ?thesis by (auto simp: create_meal_def difficulties_def)
qed

theorem create_meal_spec_witness:
  "result (create_meal ''soup'' ''thai'' (Num 0) ''LOW'' []) = Inl Invalid_Argument \<and>
   result (create_meal ''soup'' ''thai'' (Num 5) ''EASY'' []) = Inl Invalid_Argument \<and>
   result (create_meal ''soup'' ''thai'' (Num 5) ''LOW'' [sample_row 1 ''soup'' 0 0 True]) =
     Inl Duplicate_Name \<and>
   result (create_meal ''soup'' ''thai'' (Num 5) ''LOW'' [sample_row 1 ''stew'' 0 0 False]) = Inr () \<and>
   (\<exists>i. table (create_meal ''soup'' ''thai'' (Num 5) ''LOW'' [sample_row 1 ''stew'' 0 0 False]) =
      [sample_row 1 ''stew'' 0 0 False, sample_row i ''soup'' 0 0 False])"
  using create_meal_spec [of 0 "''soup''" "''thai''" "''LOW''" "[]"]
    create_meal_spec [of 5 "''soup''" "''thai''" "''EASY''" "[]"]
    create_meal_spec [of 5 "''soup''" "''thai''" "''LOW''" "[sample_row 1 ''soup'' 0 0 True]"]
    create_meal_spec [of 5 "''soup''" "''thai''" "''LOW''" "[sample_row 1 ''stew'' 0 0 False]"]
  by (simp add: sample_row_def)

subsection \<open>Deleting a meal\<close>

text \<open>
  C4. \<open>delete_meal\<close> fails with not-found when no row has the identifier and with
  already-deleted when the row found is flagged deleted. Otherwise it succeeds, the row
  is then found with its flag set and nothing else changed, rows with another identifier
  are found as before, and a second call with the same identifier fails with
  already-deleted.
\<close>

theorem delete_meal_spec:
  "((\<forall>r \<in> set db. r_id r \<noteq> i) \<longrightarrow> result (delete_meal i db) = Inl Not_Found) \<and>
   (\<forall>r. fetch_by_id db i = Some r \<and> r_deleted r \<longrightarrow>
      result (delete_meal i db) = Inl Already_Deleted) \<and>
   (\<forall>r. fetch_by_id db i = Some r \<and> \<not> r_deleted r \<longrightarrow>
      result (delete_meal i db) = Inr () \<and>
      fetch_by_id (table (delete_meal i db)) i = Some (r\<lparr>r_deleted := True\<rparr>) \<and>
      result (delete_meal i (table (delete_meal i db))) = Inl Already_Deleted) \<and>
   (\<forall>j. j \<noteq> i \<longrightarrow> fetch_by_id (table (delete_meal i db)) j = fetch_by_id db j) \<and>
   map r_id (table (delete_meal i db)) = map r_id db"
proof (cases "fetch_by_id db i")
  case None
  then show ?thesis by (simp add: delete_meal_def)
next
  case (Some r)
  then have here: "\<not> (\<forall>r \<in> set db. r_id r \<noteq> i)"
    using fetch_by_id_None [of db i] by simp
  have ids: "map r_id (table (delete_meal i db)) = map r_id db"
    using Some by (simp add: delete_meal_def o_def cong: map_cong)
  show ?thesis
  proof (cases "r_deleted r")
    case True
    with Some here ids show ?thesis by (simp add: delete_meal_def)
  next
    case False
    have tab: "table (delete_meal i db) =
        map (\<lambda>x. if r_id x = i then x\<lparr>r_deleted := True\<rparr> else x) db"
      using Some False by (simp add: delete_meal_def)
    have found: "fetch_by_id (table (delete_meal i db)) i = Some (r\<lparr>r_deleted := True\<rparr>)"
      using Some by (simp add: tab fetch_by_id_map)
    have again: "result (delete_meal i (table (delete_meal i db))) = Inl Already_Deleted"
      using found by (simp add: delete_meal_def [of i "table (delete_meal i db)"])
    have others: "\<forall>j. j \<noteq> i \<longrightarrow> fetch_by_id (table (delete_meal i db)) j = fetch_by_id db j"
      by (simp add: tab fetch_by_id_map)
    have ok: "result (delete_meal i db) = Inr ()"
      using Some False by (simp add: delete_meal_def)
    show ?thesis using Some False here found again others ok ids by simp
  qed
qed

theorem delete_meal_spec_witness:
  "result (delete_meal 7 []) = Inl Not_Found \<and>
   result (delete_meal 1 [sample_row 1 ''soup'' 0 0 True]) = Inl Already_Deleted \<and>
   result (delete_meal 1 [sample_row 1 ''soup'' 0 0 False]) = Inr () \<and>
   fetch_by_id (table (delete_meal 1 [sample_row 1 ''soup'' 0 0 False])) 1 =
     Some (sample_row 1 ''soup'' 0 0 True) \<and>
   result (delete_meal 1 (table (delete_meal 1 [sample_row 1 ''soup'' 0 0 False]))) =
     Inl Already_Deleted"
  using delete_meal_spec [of "[]" 7]
    delete_meal_spec [of "[sample_row 1 ''soup'' 0 0 True]" 1]
    delete_meal_spec [of "[sample_row 1 ''soup'' 0 0 False]" 1]
  by (simp add: fetch_by_id_def sample_row_def)

subsection \<open>A call that raises leaves the table alone\<close>

text \<open>
  C10. Whenever \<open>create_meal\<close>, \<open>delete_meal\<close> or \<open>update_meal_stats\<close> raises one of
  its own failures, the table after the call is the table before it.
\<close>

theorem failure_keeps_table:
  "(\<forall>e. result (create_meal n c price d db) = Inl e \<longrightarrow> table (create_meal n c price d db) = db) \<and>
   (\<forall>e. result (delete_meal i db) = Inl e \<longrightarrow> table (delete_meal i db) = db) \<and>
   (\<forall>e. result (update_meal_stats i res db) = Inl e \<longrightarrow> table (update_meal_stats i res db) = db)"
  by (auto simp: create_meal_def delete_meal_def update_meal_stats_def
      split: py_price.splits option.splits if_splits)

theorem failure_keeps_table_witness:
  "table (create_meal ''soup'' ''thai'' (Num 5) ''LOW'' [sample_row 1 ''soup'' 0 0 True]) =
     [sample_row 1 ''soup'' 0 0 True] \<and>
   table (delete_meal 1 [sample_row 1 ''soup'' 0 0 True]) = [sample_row 1 ''soup'' 0 0 True] \<and>
   table (update_meal_stats 1 ''draw'' [sample_row 1 ''soup'' 0 0 False]) =
     [sample_row 1 ''soup'' 0 0 False]"
proof -
  have a: "result (create_meal ''soup'' ''thai'' (Num 5) ''LOW'' [sample_row 1 ''soup'' 0 0 True]) =
      Inl Duplicate_Name"
    by (simp add: create_meal_def difficulties_def fetch_by_name_def sample_row_def)
  have b: "result (delete_meal 1 [sample_row 1 ''soup'' 0 0 True]) = Inl Already_Deleted"
    by (simp add: delete_meal_def fetch_by_id_def sample_row_def)
  have c: "result (update_meal_stats 1 ''draw'' [sample_row 1 ''soup'' 0 0 False]) =
      Inl Invalid_Argument"
    by (simp add: update_meal_stats_def fetch_by_id_def sample_row_def)
  show ?thesis
    using a b c
      failure_keeps_table [of "''soup''" "''thai''" "Num 5" "''LOW''"
        "[sample_row 1 ''soup'' 0 0 True]" 1 "''draw''"]
      failure_keeps_table [of "''soup''" "''thai''" "Num 5" "''LOW''"
        "[sample_row 1 ''soup'' 0 0 False]" 1 "''draw''"]
    by simp
qed

subsection \<open>What every reachable table satisfies\<close>

lemma next_id_above: "r \<in> set db \<Longrightarrow> r_id r < next_id db"
  by (induction db rule: next_id.induct) (auto split: if_splits)

lemma next_id_fresh: "next_id db \<notin> r_id ` set db"
  using next_id_above by fastforce

lemma fetch_by_id_distinct:
  "distinct (map r_id db) \<Longrightarrow> r \<in> set db \<Longrightarrow> fetch_by_id db (r_id r) = Some r"
  unfolding fetch_by_id_def by (induction db) (auto simp: image_iff)

lemma fetch_by_name_distinct:
  "distinct (map r_meal db) \<Longrightarrow> r \<in> set db \<Longrightarrow> fetch_by_name db (r_meal r) = Some r"
  unfolding fetch_by_name_def by (induction db) (auto simp: image_iff)

text \<open>Each call keeps identifiers and names free of repetitions.\<close>

lemma step_keys:
  assumes "distinct (map r_id db)" and "distinct (map r_meal db)"
  shows "distinct (map r_id (step c db)) \<and> distinct (map r_meal (step c db))"
proof (cases c)
  case (Create n k p d)
  show ?thesis
    using assms next_id_fresh [of db] fetch_by_name_None [of db n]
    by (auto simp: Create create_meal_def split: py_price.splits)
next
  case (Delete i)
  have "map r_id (step c db) = map r_id db" and "map r_meal (step c db) = map r_meal db"
    by (simp_all add: Delete delete_meal_def o_def split: option.splits cong: map_cong)
  with assms show ?thesis by simp
next
  case (UpdateStats i res)
  have "map r_id (step c db) = map r_id db" and "map r_meal (step c db) = map r_meal db"
    by (simp_all add: UpdateStats update_meal_stats_def o_def split: option.splits cong: map_cong)
  with assms show ?thesis by simp
qed

lemma run_keys:
  "distinct (map r_id db) \<Longrightarrow> distinct (map r_meal db) \<Longrightarrow>
   distinct (map r_id (run cs db)) \<and> distinct (map r_meal (run cs db))"
proof (induction cs arbitrary: db)
  case Nil
  then show ?case by simp
next
  case (Cons c cs)
  from step_keys [OF Cons.prems] show ?case by (simp add: Cons.IH)
qed

text \<open>Each call keeps prices positive and difficulties among the three levels.\<close>

lemma step_fields:
  assumes "\<forall>r \<in> set db. 0 < r_price r \<and> r_difficulty r \<in> set difficulties"
  shows "\<forall>r \<in> set (step c db). 0 < r_price r \<and> r_difficulty r \<in> set difficulties"
proof (cases c)
  case (Create n k p d)
  show ?thesis
    using assms by (auto simp: Create create_meal_def split: py_price.splits)
next
  case (Delete i)
  show ?thesis
    using assms by (auto simp: Delete delete_meal_def split: option.splits)
next
  case (UpdateStats i res)
  show ?thesis
    using assms by (auto simp: UpdateStats update_meal_stats_def split: option.splits)
qed

lemma run_fields:
  "\<forall>r \<in> set db. 0 < r_price r \<and> r_difficulty r \<in> set difficulties \<Longrightarrow>
   \<forall>r \<in> set (run cs db). 0 < r_price r \<and> r_difficulty r \<in> set difficulties"
proof (induction cs arbitrary: db)
  case Nil
  then show ?case by simp
next
  case (Cons c cs)
  have "\<forall>r \<in> set (step c db). 0 < r_price r \<and> r_difficulty r \<in> set difficulties"
    by (rule step_fields [OF Cons.prems])
  from Cons.IH [OF this] show ?case by simp
qed

text \<open>Each call keeps wins between zero and battles.\<close>

lemma step_stats:
  assumes "\<forall>r \<in> set db. 0 \<le> r_wins r \<and> r_wins r \<le> r_battles r"
  shows "\<forall>r \<in> set (step c db). 0 \<le> r_wins r \<and> r_wins r \<le> r_battles r"
proof (cases c)
  case (Create n k p d)
  show ?thesis
    using assms by (auto simp: Create create_meal_def split: py_price.splits)
next
  case (Delete i)
  show ?thesis
    using assms by (auto simp: Delete delete_meal_def split: option.splits)
next
  case (UpdateStats i res)
  show ?thesis
  proof (cases "result (update_meal_stats i res db)")
    case (Inl e)
    then have "step c db = db"
      by (auto simp: UpdateStats update_meal_stats_def split: option.splits if_splits)
    with assms show ?thesis by simp
  next
    case (Inr u)
    then have "step c db =
        map (\<lambda>x. if r_id x = i
                  then x\<lparr>r_battles := r_battles x + 1, r_wins := r_wins x + 1\<rparr> else x) db \<or>
      step c db = map (\<lambda>x. if r_id x = i then x\<lparr>r_battles := r_battles x + 1\<rparr> else x) db"
      by (auto simp: UpdateStats update_meal_stats_def split: option.splits if_splits)
    then show ?thesis
    proof
      assume "step c db =
        map (\<lambda>x. if r_id x = i
                  then x\<lparr>r_battles := r_battles x + 1, r_wins := r_wins x + 1\<rparr> else x) db"
      with assms show ?thesis by auto
    next
      assume "step c db =
        map (\<lambda>x. if r_id x = i then x\<lparr>r_battles := r_battles x + 1\<rparr> else x) db"
      with assms show ?thesis by fastforce
    qed
  qed
qed

lemma run_stats:
  "\<forall>r \<in> set db. 0 \<le> r_wins r \<and> r_wins r \<le> r_battles r \<Longrightarrow>
   \<forall>r \<in> set (run cs db). 0 \<le> r_wins r \<and> r_wins r \<le> r_battles r"
proof (induction cs arbitrary: db)
  case Nil
  then show ?case by simp
next
  case (Cons c cs)
  have "\<forall>r \<in> set (step c db). 0 \<le> r_wins r \<and> r_wins r \<le> r_battles r"
    by (rule step_stats [OF Cons.prems])
  from Cons.IH [OF this] show ?case by simp
qed

subsection \<open>Wins never exceed battles\<close>

text \<open>
  C6. In the table left by any sequence of \<open>create_meal\<close>, \<open>delete_meal\<close> and
  \<open>update_meal_stats\<close> calls that starts from the empty table, every row has
  wins at most battles, and neither is negative. No call tests the bound.
\<close>

theorem wins_le_battles:
  "\<forall>r \<in> set (run cs []). r_wins r \<le> r_battles r \<and> 0 \<le> r_battles r \<and> 0 \<le> r_wins r"
  using run_stats [of "[]" cs] by fastforce

theorem wins_le_battles_witness:
  "sample_row 1 ''soup'' 2 1 False \<in>
     set (run [Create ''soup'' ''thai'' (Num 5) ''LOW'', UpdateStats 1 ''win'',
               UpdateStats 1 ''loss''] []) \<and>
   r_wins (sample_row 1 ''soup'' 2 1 False) \<le> r_battles (sample_row 1 ''soup'' 2 1 False) \<and>
   0 \<le> r_battles (sample_row 1 ''soup'' 2 1 False) \<and>
   0 \<le> r_wins (sample_row 1 ''soup'' 2 1 False)"
proof -
  have mem: "sample_row 1 ''soup'' 2 1 False \<in>
     set (run [Create ''soup'' ''thai'' (Num 5) ''LOW'', UpdateStats 1 ''win'',
               UpdateStats 1 ''loss''] [])"
    by (simp add: create_meal_def update_meal_stats_def fetch_by_id_def fetch_by_name_def
        difficulties_def sample_row_def)
  from wins_le_battles [of "[Create ''soup'' ''thai'' (Num 5) ''LOW'', UpdateStats 1 ''win'',
               UpdateStats 1 ''loss'']"] mem
  show ?thesis by blast
qed

subsection \<open>Looking a meal up\<close>

text \<open>
  C5. In the table left by any sequence of calls from the empty table,
  \<open>get_meal_by_id\<close> and \<open>get_meal_by_name\<close> fail with not-found when no row has the
  key, fail with already-deleted when the row with the key is flagged deleted, and
  otherwise return the identifier, name, cuisine, price and difficulty of that row;
  a \<open>Meal\<close> has no field for battles or wins.
\<close>

theorem get_meal_spec:
  fixes cs :: "call list"
  defines "db \<equiv> run cs []"
  shows
  "((\<forall>r \<in> set db. r_id r \<noteq> i) \<longrightarrow> result (get_meal_by_id i db) = Inl Not_Found) \<and>
   (\<forall>r \<in> set db. r_id r = i \<longrightarrow>
      result (get_meal_by_id i db) =
        (if r_deleted r then Inl Already_Deleted
         else Inr \<lparr>m_id = r_id r, m_meal = r_meal r, m_cuisine = r_cuisine r,
                   m_price = r_price r, m_difficulty = r_difficulty r\<rparr>)) \<and>
   ((\<forall>r \<in> set db. r_meal r \<noteq> n) \<longrightarrow> result (get_meal_by_name n db) = Inl Not_Found) \<and>
   (\<forall>r \<in> set db. r_meal r = n \<longrightarrow>
      result (get_meal_by_name n db) =
        (if r_deleted r then Inl Already_Deleted
         else Inr \<lparr>m_id = r_id r, m_meal = r_meal r, m_cuisine = r_cuisine r,
                   m_price = r_price r, m_difficulty = r_difficulty r\<rparr>))"
proof -
  have keys: "distinct (map r_id db)" "distinct (map r_meal db)"
    using run_keys [of "[]" cs] by (simp_all add: db_def)
  have fields: "\<forall>r \<in> set db. 0 < r_price r \<and> r_difficulty r \<in> set difficulties"
    using run_fields [of "[]" cs] by (simp add: db_def)
  have none_id: "(\<forall>r \<in> set db. r_id r \<noteq> i) \<longrightarrow> result (get_meal_by_id i db) = Inl Not_Found"
    using fetch_by_id_None [of db i] by (auto simp: get_meal_by_id_def)
  have none_name: "(\<forall>r \<in> set db. r_meal r \<noteq> n) \<longrightarrow> result (get_meal_by_name n db) = Inl Not_Found"
    using fetch_by_name_None [of db n] by (auto simp: get_meal_by_name_def)
  have some_id: "result (get_meal_by_id i db) =
        (if r_deleted r then Inl Already_Deleted
         else Inr \<lparr>m_id = r_id r, m_meal = r_meal r, m_cuisine = r_cuisine r,
                   m_price = r_price r, m_difficulty = r_difficulty r\<rparr>)"
    if "r \<in> set db" and "r_id r = i" for r
  proof -
    have "fetch_by_id db i = Some r"
      using fetch_by_id_distinct [OF keys(1) that(1)] that(2) by simp
    moreover have "\<not> r_price r < 0" and "r_difficulty r \<in> set difficulties"
      using fields that(1) by force+
    ultimately show ?thesis by (simp add: get_meal_by_id_def make_Meal_def)
  qed
  have some_name: "result (get_meal_by_name n db) =
        (if r_deleted r then Inl Already_Deleted
         else Inr \<lparr>m_id = r_id r, m_meal = r_meal r, m_cuisine = r_cuisine r,
                   m_price = r_price r, m_difficulty = r_difficulty r\<rparr>)"
    if "r \<in> set db" and "r_meal r = n" for r
  proof -
    have "fetch_by_name db n = Some r"
      using fetch_by_name_distinct [OF keys(2) that(1)] that(2) by simp
    moreover have "\<not> r_price r < 0" and "r_difficulty r \<in> set difficulties"
      using fields that(1) by force+
    ultimately show ?thesis by (simp add: get_meal_by_name_def make_Meal_def)
  qed
  show ?thesis using none_id none_name some_id some_name by blast
qed

theorem get_meal_spec_witness:
  "run [Create ''soup'' ''thai'' (Num 5) ''LOW'', Create ''stew'' ''thai'' (Num 5) ''LOW'',
        Delete 2] [] =
     [sample_row 1 ''soup'' 0 0 False, sample_row 2 ''stew'' 0 0 True] \<and>
   result (get_meal_by_id 3 [sample_row 1 ''soup'' 0 0 False, sample_row 2 ''stew'' 0 0 True]) =
     Inl Not_Found \<and>
   result (get_meal_by_id 2 [sample_row 1 ''soup'' 0 0 False, sample_row 2 ''stew'' 0 0 True]) =
     Inl Already_Deleted \<and>
   result (get_meal_by_id 1 [sample_row 1 ''soup'' 0 0 False, sample_row 2 ''stew'' 0 0 True]) =
     Inr \<lparr>m_id = 1, m_meal = ''soup'', m_cuisine = ''thai'', m_price = 5, m_difficulty = ''LOW''\<rparr> \<and>
   result (get_meal_by_name ''rice'' [sample_row 1 ''soup'' 0 0 False, sample_row 2 ''stew'' 0 0 True]) =
     Inl Not_Found \<and>
   result (get_meal_by_name ''stew'' [sample_row 1 ''soup'' 0 0 False, sample_row 2 ''stew'' 0 0 True]) =
     Inl Already_Deleted \<and>
   result (get_meal_by_name ''soup'' [sample_row 1 ''soup'' 0 0 False, sample_row 2 ''stew'' 0 0 True]) =
     Inr \<lparr>m_id = 1, m_meal = ''soup'', m_cuisine = ''thai'', m_price = 5, m_difficulty = ''LOW''\<rparr>"
proof -
  have tab: "run [Create ''soup'' ''thai'' (Num 5) ''LOW'', Create ''stew'' ''thai'' (Num 5) ''LOW'',
        Delete 2] [] =
     [sample_row 1 ''soup'' 0 0 False, sample_row 2 ''stew'' 0 0 True]"
    by (simp add: create_meal_def delete_meal_def fetch_by_id_def fetch_by_name_def
        difficulties_def sample_row_def)
  show ?thesis
    using tab
      get_meal_spec [of "[Create ''soup'' ''thai'' (Num 5) ''LOW'',
        Create ''stew'' ''thai'' (Num 5) ''LOW'', Delete 2]" 3 "''rice''"]
      get_meal_spec [of "[Create ''soup'' ''thai'' (Num 5) ''LOW'',
        Create ''stew'' ''thai'' (Num 5) ''LOW'', Delete 2]" 2 "''stew''"]
      get_meal_spec [of "[Create ''soup'' ''thai'' (Num 5) ''LOW'',
        Create ''stew'' ''thai'' (Num 5) ''LOW'', Delete 2]" 1 "''soup''"]
    by (simp add: sample_row_def)
qed

subsection \<open>Creating, then looking up\<close>

lemma find_after:
  "find P (xs @ ys) = (case find P xs of None \<Rightarrow> find P ys | Some x \<Rightarrow> Some x)"
  by (induction xs) auto

text \<open>
  C8. After a successful \<open>create_meal\<close>, which needs a name not yet in the table, the
  new row carries the generated identifier, and both \<open>get_meal_by_name\<close> with the name
  and \<open>get_meal_by_id\<close> with that identifier succeed and return the name, cuisine,
  price and difficulty that were given.
\<close>

theorem create_then_get:
  assumes "result (create_meal n c (Num p) d db) = Inr ()"
  defines "db' \<equiv> table (create_meal n c (Num p) d db)"
  shows "(\<forall>r \<in> set db. r_meal r \<noteq> n) \<and>
    (\<exists>r. db' = db @ [r] \<and> r_id r = next_id db \<and> r_meal r = n) \<and>
    result (get_meal_by_name n db') =
      Inr \<lparr>m_id = next_id db, m_meal = n, m_cuisine = c, m_price = p, m_difficulty = d\<rparr> \<and>
    result (get_meal_by_id (next_id db) db') =
      Inr \<lparr>m_id = next_id db, m_meal = n, m_cuisine = c, m_price = p, m_difficulty = d\<rparr>"
proof -
  from assms(1) have ok: "0 < p" "d \<in> set difficulties" "fetch_by_name db n = None"
    by (auto simp: create_meal_def split: if_splits)
  then have tab: "db' = db @ [\<lparr>r_id = next_id db, r_meal = n, r_cuisine = c, r_price = p,
      r_difficulty = d, r_battles = 0, r_wins = 0, r_deleted = False\<rparr>]"
    by (simp add: db'_def create_meal_def)
  have fresh_name: "\<forall>r \<in> set db. r_meal r \<noteq> n"
    using ok(3) by (simp add: fetch_by_name_None)
  have fresh_id: "\<forall>r \<in> set db. r_id r \<noteq> next_id db"
    using next_id_above [of _ db] by fastforce
  have by_name: "fetch_by_name db' n = Some \<lparr>r_id = next_id db, r_meal = n, r_cuisine = c,
      r_price = p, r_difficulty = d, r_battles = 0, r_wins = 0, r_deleted = False\<rparr>"
    using ok(3) by (simp add: tab fetch_by_name_def find_after)
  have "fetch_by_id db (next_id db) = None"
    using fresh_id by (simp add: fetch_by_id_None)
  then have by_id: "fetch_by_id db' (next_id db) = Some \<lparr>r_id = next_id db, r_meal = n,
      r_cuisine = c, r_price = p, r_difficulty = d, r_battles = 0, r_wins = 0, r_deleted = False\<rparr>"
    by (simp add: tab fetch_by_id_def find_after)
  show ?thesis
    using ok(1,2) fresh_name by_name by_id tab
    by (simp add: get_meal_by_name_def get_meal_by_id_def make_Meal_def)
qed

theorem create_then_get_witness:
  "result (create_meal ''soup'' ''thai'' (Num 5) ''LOW'' [sample_row 4 ''stew'' 0 0 True]) = Inr () \<and>
   result (get_meal_by_name ''soup''
       (table (create_meal ''soup'' ''thai'' (Num 5) ''LOW'' [sample_row 4 ''stew'' 0 0 True]))) =
     Inr \<lparr>m_id = 5, m_meal = ''soup'', m_cuisine = ''thai'', m_price = 5, m_difficulty = ''LOW''\<rparr> \<and>
   result (get_meal_by_id 5
       (table (create_meal ''soup'' ''thai'' (Num 5) ''LOW'' [sample_row 4 ''stew'' 0 0 True]))) =
     Inr \<lparr>m_id = 5, m_meal = ''soup'', m_cuisine = ''thai'', m_price = 5, m_difficulty = ''LOW''\<rparr>"
proof -
  have ok: "result (create_meal ''soup'' ''thai'' (Num 5) ''LOW'' [sample_row 4 ''stew'' 0 0 True]) =
      Inr ()"
    by (simp add: create_meal_def difficulties_def fetch_by_name_def sample_row_def)
  show ?thesis
    using ok create_then_get [OF ok] by (simp add: sample_row_def)
qed

subsection \<open>Rounding to the nearest double\<close>



















subsection \<open>The leaderboard\<close>


text \<open>
  Three wins of four battles are reported as 75.0. Twenty-three wins of eighty battles
  are reported as 28.7, the double next to it: the product computed is
  28.749999999999996, just below the tie at 28.75. In the same way 49 and 51 wins of
  eighty battles are reported as 61.3 and 63.7.
\<close>

lemma win_pct_examples:
  "e_win_pct (leaderboard_row (sample_row 1 ''soup'' 4 3 False)) = 75"
  "e_win_pct (leaderboard_row (sample_row 1 ''soup'' 80 23 False)) = to_double (287 / 10)"
  "e_win_pct (leaderboard_row (sample_row 1 ''soup'' 80 49 False)) = to_double (613 / 10)"
  "e_win_pct (leaderboard_row (sample_row 1 ''soup'' 80 51 False)) = to_double (637 / 10)"
  "fl_mul (win_pct (sample_row 1 ''soup'' 80 23 False)) 100 = 115 / 4 - 1 / 2 ^ 48"
  "to_double (287 / 10) = 8078331831595827 / 2 ^ 48"
  by code_simp+

lemma leaderboard_example:
  "result (get_leaderboard ''win_pct''
     [sample_row 1 ''soup'' 4 3 False, sample_row 2 ''stew'' 0 0 False,
      sample_row 3 ''rice'' 5 5 True, sample_row 4 ''cake'' 2 2 False]) =
   Inr [\<lparr>e_id = 4, e_meal = ''cake'', e_cuisine = ''thai'', e_price = 5, e_difficulty = ''LOW'',
          e_battles = 2, e_wins = 2, e_win_pct = 100\<rparr>,
        \<lparr>e_id = 1, e_meal = ''soup'', e_cuisine = ''thai'', e_price = 5, e_difficulty = ''LOW'',
          e_battles = 4, e_wins = 3, e_win_pct = 75\<rparr>]"
  by code_simp



subsection \<open>Failures and the log\<close>

text \<open>
  Every failure that is not an invalid argument is logged by the call that raises it, and
  so is the invalid sort key of \<open>get_leaderboard\<close>.
\<close>

lemma other_failures_logged:
  "(result (create_meal n c price d db) = Inl e \<and> e \<noteq> Invalid_Argument \<longrightarrow>
      events (create_meal n c price d db) \<noteq> []) \<and>
   (result (delete_meal i db) = Inl e \<longrightarrow> events (delete_meal i db) \<noteq> []) \<and>
   (result (get_meal_by_id i db) = Inl e \<and> e \<noteq> Invalid_Argument \<longrightarrow>
      events (get_meal_by_id i db) \<noteq> []) \<and>
   (result (get_meal_by_name n db) = Inl e \<and> e \<noteq> Invalid_Argument \<longrightarrow>
      events (get_meal_by_name n db) \<noteq> []) \<and>
   (result (update_meal_stats i res db) = Inl e \<and> e \<noteq> Invalid_Argument \<longrightarrow>
      events (update_meal_stats i res db) \<noteq> []) \<and>
   (result (get_leaderboard sort_by db) = Inl e \<longrightarrow> events (get_leaderboard sort_by db) \<noteq> [])"
  by (auto simp: create_meal_def delete_meal_def get_meal_by_id_def get_meal_by_name_def
      update_meal_stats_def get_leaderboard_def make_Meal_def
      split: py_price.splits option.splits if_splits)

text \<open>
  C9. Not every failure is logged before it is propagated. On a live meal,
  \<open>update_meal_stats\<close> with the result \<open>draw\<close> raises its invalid-argument failure
  with nothing logged, and so does \<open>create_meal\<close> with the price 0, while
  \<open>get_leaderboard\<close> logs its invalid sort key and \<open>update_meal_stats\<close> logs a missing
  meal. The failures themselves all reach the caller.
\<close>

theorem invalid_result_not_logged:
  "result (update_meal_stats 1 ''draw'' [sample_row 1 ''soup'' 0 0 False]) = Inl Invalid_Argument \<and>
   events (update_meal_stats 1 ''draw'' [sample_row 1 ''soup'' 0 0 False]) = [] \<and>
   result (create_meal ''soup'' ''thai'' (Num 0) ''LOW'' []) = Inl Invalid_Argument \<and>
   events (create_meal ''soup'' ''thai'' (Num 0) ''LOW'' []) = [] \<and>
   result (get_leaderboard ''bogus'' []) = Inl Invalid_Argument \<and>
   events (get_leaderboard ''bogus'' []) = [Error ''Invalid sort_by parameter: %s''] \<and>
   result (update_meal_stats 2 ''draw'' [sample_row 1 ''soup'' 0 0 False]) = Inl Not_Found \<and>
   events (update_meal_stats 2 ''draw'' [sample_row 1 ''soup'' 0 0 False]) =
     [Info ''Meal with ID %s not found'']"
  by (simp add: update_meal_stats_def create_meal_def get_leaderboard_def fetch_by_id_def
      sample_row_def)

end
